theory Spec2Isabelle
  imports Main
begin

section \<open>JavaScript strings\<close>

text \<open>
  Strings are modelled as \<^typ>\<open>string\<close>, one \<^typ>\<open>char\<close> per character, and the
  characters meant are the ASCII ones. The JavaScript built-ins used by the generator
  are modelled on that range: \<open>toUpperCase\<close> maps \<open>a\<close>..\<open>z\<close> to \<open>A\<close>..\<open>Z\<close> and leaves
  every other ASCII character alone, and the white space removed by \<open>trim\<close> and
  skipped by \<open>Number\<close> is TAB, LF, VT, FF, CR and SPACE. JavaScript also changes
  letters and strips white space outside ASCII, which the model does not follow.
\<close>

abbreviation (input) SQ :: char where "SQ \<equiv> CHR 0x27"
abbreviation (input) DQ :: char where "DQ \<equiv> CHR 0x22"
abbreviation (input) BT :: char where "BT \<equiv> CHR 0x60"
abbreviation (input) NL :: char where "NL \<equiv> CHR 0x0A"

text \<open>\<open>Array.prototype.join\<close>.\<close>

fun join :: "string \<Rightarrow> string list \<Rightarrow> string" where
  "join sep [] = []"
| "join sep [x] = x"
| "join sep (x # y # ys) = x @ sep @ join sep (y # ys)"

text \<open>\<open>s.replace(/'/g, "''")\<close>: every single quote is doubled.\<close>

fun escapeQuotes :: "string \<Rightarrow> string" where
  "escapeQuotes [] = []"
| "escapeQuotes (c # cs) = (if c = SQ then SQ # SQ # escapeQuotes cs else c # escapeQuotes cs)"

text \<open>\<open>String.prototype.toUpperCase\<close> on ASCII.\<close>

definition lowerLetters :: string where
  "lowerLetters = ''abcdefghijklmnopqrstuvwxyz''"

definition upperLetters :: string where
  "upperLetters = ''ABCDEFGHIJKLMNOPQRSTUVWXYZ''"

definition upperChar :: "char \<Rightarrow> char" where
  "upperChar c = (case map_of (zip lowerLetters upperLetters) c of Some u \<Rightarrow> u | None \<Rightarrow> c)"

definition toUpperCase :: "string \<Rightarrow> string" where
  "toUpperCase s = map upperChar s"

text \<open>\<open>String.prototype.trim\<close>.\<close>

definition isWhiteSpace :: "char \<Rightarrow> bool" where
  "isWhiteSpace c = (c \<in> set [CHR 0x09, CHR 0x0A, CHR 0x0B, CHR 0x0C, CHR 0x0D, CHR 0x20])"

definition trim :: "string \<Rightarrow> string" where
  "trim s = rev (dropWhile isWhiteSpace (rev (dropWhile isWhiteSpace s)))"

text \<open>\<open>s.split(',')\<close>: the pieces between commas; the empty string gives one empty piece.\<close>

fun splitComma :: "string \<Rightarrow> string list" where
  "splitComma [] = [[]]"
| "splitComma (c # cs) =
     (if c = CHR '','' then [] # splitComma cs
      else (case splitComma cs of p # ps \<Rightarrow> (c # p) # ps | [] \<Rightarrow> [[c]]))"

text \<open>
  JavaScript truthiness of an optional string: \<open>undefined\<close> and the empty string are
  falsy.
\<close>

fun truthy :: "string option \<Rightarrow> bool" where
  "truthy None = False"
| "truthy (Some s) = (s \<noteq> [])"

section \<open>The generator's dialect and identifier quoting\<close>

text \<open>
  \<open>SQLDialect\<close> is the union of five string literals. The \<open>default\<close> arms of the
  generator's switches are reached only by a value outside that union (an imported
  project is not validated); \<open>Unrecognized\<close> stands for such a value.
\<close>

datatype SQLDialect = MySQL | PostgreSQL | SQLite | MariaDB | Oracle | Unrecognized

fun quoteIdentifier :: "SQLDialect \<Rightarrow> string \<Rightarrow> string" where
  "quoteIdentifier MySQL identifier = [BT] @ identifier @ [BT]"
| "quoteIdentifier MariaDB identifier = [BT] @ identifier @ [BT]"
| "quoteIdentifier PostgreSQL identifier = [DQ] @ identifier @ [DQ]"
| "quoteIdentifier SQLite identifier = [DQ] @ identifier @ [DQ]"
| "quoteIdentifier Oracle identifier = [DQ] @ toUpperCase identifier @ [DQ]"
| "quoteIdentifier Unrecognized identifier = identifier"

fun getAutoIncrementSyntax :: "SQLDialect \<Rightarrow> string" where
  "getAutoIncrementSyntax MySQL = '' AUTO_INCREMENT''"
| "getAutoIncrementSyntax MariaDB = '' AUTO_INCREMENT''"
| "getAutoIncrementSyntax PostgreSQL = []"
| "getAutoIncrementSyntax SQLite = '' AUTOINCREMENT''"
| "getAutoIncrementSyntax Oracle = '' AUTO_INCREMENT''"
| "getAutoIncrementSyntax Unrecognized = '' AUTO_INCREMENT''"

section \<open>\<open>Number(value)\<close> on strings\<close>

text \<open>
  \<open>formatDefaultValue\<close> asks \<open>!isNaN(Number(value))\<close>. \<open>Number\<close> applied to a string
  is NaN exactly when the string, with surrounding white space removed, is neither
  empty nor a \<open>StrNumericLiteral\<close> of the ECMAScript grammar: an optionally signed
  decimal literal (digits with an optional fraction and exponent, or \<open>Infinity\<close>), or an
  unsigned binary, octal or hexadecimal integer literal. The recogniser below follows
  that grammar.
\<close>

definition isDigit :: "char \<Rightarrow> bool" where
  "isDigit c = (c \<in> set ''0123456789'')"

definition isDecimalDigits :: "string \<Rightarrow> bool" where
  "isDecimalDigits s = (s \<noteq> [] \<and> list_all isDigit s)"

definition isSignedInteger :: "string \<Rightarrow> bool" where
  "isSignedInteger s =
     (case s of
        [] \<Rightarrow> False
      | c # r \<Rightarrow> if c = CHR ''+'' \<or> c = CHR ''-'' then isDecimalDigits r else isDecimalDigits s)"

definition isExponentPart :: "string \<Rightarrow> bool" where
  "isExponentPart s =
     (case s of
        [] \<Rightarrow> False
      | c # r \<Rightarrow> (c = CHR ''e'' \<or> c = CHR ''E'') \<and> isSignedInteger r)"

definition isStrUnsignedDecimalLiteral :: "string \<Rightarrow> bool" where
  "isStrUnsignedDecimalLiteral s =
     (if s = ''Infinity'' then True
      else
        (let ds = takeWhile isDigit s; r = dropWhile isDigit s in
         case r of
           [] \<Rightarrow> ds \<noteq> []
         | c # r' \<Rightarrow>
             if c = CHR ''.'' then
               (let fs = takeWhile isDigit r'; r'' = dropWhile isDigit r' in
                (ds \<noteq> [] \<or> fs \<noteq> []) \<and> (r'' = [] \<or> isExponentPart r''))
             else ds \<noteq> [] \<and> isExponentPart r))"

definition isStrDecimalLiteral :: "string \<Rightarrow> bool" where
  "isStrDecimalLiteral s =
     (case s of
        [] \<Rightarrow> False
      | c # r \<Rightarrow>
          if c = CHR ''+'' \<or> c = CHR ''-'' then isStrUnsignedDecimalLiteral r
          else isStrUnsignedDecimalLiteral s)"

definition isNonDecimalIntegerLiteral :: "string \<Rightarrow> bool" where
  "isNonDecimalIntegerLiteral s =
     (case s of
        z # x # r \<Rightarrow>
          z = CHR ''0'' \<and> r \<noteq> [] \<and>
          (if x = CHR ''b'' \<or> x = CHR ''B'' then list_all (\<lambda>c. c \<in> set ''01'') r
           else if x = CHR ''o'' \<or> x = CHR ''O'' then list_all (\<lambda>c. c \<in> set ''01234567'') r
           else if x = CHR ''x'' \<or> x = CHR ''X''
             then list_all (\<lambda>c. c \<in> set ''0123456789abcdefABCDEF'') r
           else False)
      | _ \<Rightarrow> False)"

definition numberIsNaN :: "string \<Rightarrow> bool" where
  "numberIsNaN s =
     (let t = trim s in \<not> (t = [] \<or> isStrDecimalLiteral t \<or> isNonDecimalIntegerLiteral t))"

text \<open>
  \<open>Number.prototype.toString\<close> on an integer (JavaScript switches to exponent notation
  from \<open>10^21\<close> on; the model prints every integer in full).
\<close>

function showNat :: "nat \<Rightarrow> string" where
  "showNat n =
     (if n < 10 then [''0123456789'' ! n]
      else showNat (n div 10) @ [''0123456789'' ! (n mod 10)])"
  by pat_completeness auto
termination
  by (relation "measure (\<lambda>n. n)") auto

declare showNat.simps [simp del]

definition showInt :: "int \<Rightarrow> string" where
  "showInt i = (if i < 0 then ''-'' @ showNat (nat (- i)) else showNat (nat i))"

section \<open>The schema model (\<open>types.ts\<close>)\<close>

text \<open>
  Optional fields are \<open>option\<close>s. Record fields carry a prefix for their interface,
  since \<open>id\<close> and \<open>name\<close> occur in every one of them. Numbers are integers.
\<close>

record Column =
  c_id :: string
  c_name :: string
  c_dataType :: string
  c_length :: "string option"
  c_isPrimaryKey :: bool
  c_isNotNull :: bool
  c_isAutoIncrement :: bool
  c_isUnique :: bool
  c_defaultValue :: "string option"
  c_isForeignKey :: "bool option"
  c_referencesTable :: "string option"
  c_referencesColumn :: "string option"
  c_comment :: "string option"
  c_collation :: "string option"
  c_charset :: "string option"

record TableData =
  t_id :: string
  t_name :: string
  t_columns :: "Column list"
  t_position :: "int \<times> int"
  t_engine :: "string option"
  t_charset :: "string option"
  t_collation :: "string option"
  t_comment :: "string option"
  t_autoIncrement :: "int option"

datatype IndexType = PRIMARY | UNIQUE | INDEX | FULLTEXT | SPATIAL

datatype IndexMethod = BTREE | HASH

record IndexData =
  i_id :: string
  i_name :: string
  i_tableId :: string
  i_columns :: "string list"
  i_type :: IndexType
  i_method :: "IndexMethod option"

datatype ViewAlgorithm = UNDEFINED | MERGE | TEMPTABLE

datatype SqlSecurity = DEFINER | INVOKER

record ViewData =
  v_id :: string
  v_name :: string
  v_definition :: string
  v_isUpdatable :: bool
  v_algorithm :: ViewAlgorithm
  v_sqlSecurity :: SqlSecurity
  v_comment :: "string option"

datatype Direction = IN | OUT | INOUT

record Parameter =
  prm_name :: string
  prm_type :: string
  prm_direction :: Direction

datatype RoutineType = PROCEDURE | FUNCTION

record StoredProcedureData =
  sp_id :: string
  sp_name :: string
  sp_parameters :: "Parameter list"
  sp_body :: string
  sp_type :: RoutineType
  sp_returnType :: "string option"
  sp_comment :: "string option"
  sp_sqlSecurity :: SqlSecurity
  sp_deterministic :: bool

datatype TriggerTiming = BEFORE | AFTER

datatype TriggerEvent = INSERT | UPDATE | DELETE

record TriggerData =
  tr_id :: string
  tr_name :: string
  tr_tableId :: string
  tr_timing :: TriggerTiming
  tr_event :: TriggerEvent
  tr_body :: string
  tr_comment :: "string option"

record DatabaseData =
  db_id :: string
  db_name :: string
  db_charset :: string
  db_collation :: string
  db_comment :: "string option"

record UserData =
  u_id :: string
  u_username :: string
  u_host :: string
  u_password :: "string option"
  u_privileges :: "string list"
  u_comment :: "string option"

datatype RelationshipType = one_to_one | one_to_many | many_to_many

datatype ReferentialAction = RESTRICT | CASCADE | SET_NULL | NO_ACTION | SET_DEFAULT

text \<open>The string a \<open>ReferentialAction\<close> is.\<close>

fun referentialAction :: "ReferentialAction \<Rightarrow> string" where
  "referentialAction RESTRICT = ''RESTRICT''"
| "referentialAction CASCADE = ''CASCADE''"
| "referentialAction SET_NULL = ''SET NULL''"
| "referentialAction NO_ACTION = ''NO ACTION''"
| "referentialAction SET_DEFAULT = ''SET DEFAULT''"

record RelationshipData =
  r_id :: string
  r_sourceTable :: string
  r_targetTable :: string
  r_sourceColumn :: string
  r_targetColumn :: string
  r_type :: RelationshipType
  r_onUpdate :: ReferentialAction
  r_onDelete :: ReferentialAction

record ProjectData =
  p_databases :: "DatabaseData list"
  p_tables :: "TableData list"
  p_relationships :: "RelationshipData list"
  p_indexes :: "IndexData list"
  p_views :: "ViewData list"
  p_procedures :: "StoredProcedureData list"
  p_triggers :: "TriggerData list"
  p_users :: "UserData list"
  p_name :: string
  p_dialect :: SQLDialect
  p_currentDatabase :: "string option"

section \<open>The SQL generator (\<open>sqlGenerator.ts\<close>)\<close>

text \<open>
  The generator's only state is the dialect fixed at construction; every method takes it
  as its first argument here. No method has a \<open>throw\<close>, and none dereferences a value
  that can be \<open>undefined\<close> without testing it first, so every method is a total
  function to \<^typ>\<open>string\<close>. An \<open>if (x)\<close> on an optional string is \<^const>\<open>truthy\<close>:
  written as a \<open>case\<close> that also binds the string.
\<close>

definition formatDataType :: "Column \<Rightarrow> string" where
  "formatDataType column =
     (let dataType = c_dataType column;
          dataType =
            (case c_length column of
               Some len \<Rightarrow>
                 if len \<noteq> [] \<and>
                    c_dataType column \<in> set [''VARCHAR'', ''CHAR'', ''VARBINARY'', ''BINARY'']
                 then dataType @ ''('' @ len @ '')'' else dataType
             | None \<Rightarrow> dataType);
          dataType =
            (if c_dataType column = ''DECIMAL'' \<or> c_dataType column = ''NUMERIC'' then
               (case c_length column of
                  Some len \<Rightarrow> if len \<noteq> [] then dataType @ ''('' @ len @ '')'' else dataType
                | None \<Rightarrow> dataType)
             else dataType);
          dataType =
            (if c_dataType column = ''ENUM'' \<or> c_dataType column = ''SET'' then
               (case c_length column of
                  Some len \<Rightarrow>
                    if len \<noteq> [] then
                      (let values =
                         join '', '' (map (\<lambda>val. [SQ] @ trim val @ [SQ]) (splitComma len))
                       in dataType @ ''('' @ values @ '')'')
                    else dataType
                | None \<Rightarrow> dataType)
             else dataType)
      in dataType)"

definition formatDefaultValue :: "string \<Rightarrow> string" where
  "formatDefaultValue v =
     (let upperValue = toUpperCase v in
      if upperValue \<in> set [''NOW()'', ''CURRENT_TIMESTAMP'', ''CURRENT_DATE'', ''CURRENT_TIME'']
      then v
      else if v = ''NULL'' then v
      else if \<not> numberIsNaN v then v
      else [SQ] @ escapeQuotes v @ [SQ])"

text \<open>
  \<open>formatValue\<close> takes \<open>any\<close>; the values it tells apart are \<open>null\<close>/\<open>undefined\<close>,
  numbers, booleans, and everything else through \<open>toString()\<close> (a string here).
\<close>

datatype JsValue = JsNull | JsNumber int | JsBoolean bool | JsString string

fun formatValue :: "JsValue \<Rightarrow> string" where
  "formatValue JsNull = ''NULL''"
| "formatValue (JsNumber n) = showInt n"
| "formatValue (JsBoolean b) = (if b then ''1'' else ''0'')"
| "formatValue (JsString s) = [SQ] @ escapeQuotes s @ [SQ]"

definition generateCreateDatabaseSQL :: "SQLDialect \<Rightarrow> DatabaseData \<Rightarrow> string" where
  "generateCreateDatabaseSQL dialect database =
     (let sql = ''CREATE DATABASE '' @ quoteIdentifier dialect (db_name database);
          sql =
            (if dialect = MySQL then
               (let sql = sql @ '' CHARACTER SET '' @ db_charset database;
                    sql = sql @ '' COLLATE '' @ db_collation database
                in sql)
             else sql);
          sql =
            (case db_comment database of
               Some comment \<Rightarrow>
                 if comment \<noteq> [] then sql @ '' COMMENT '' @ [SQ] @ escapeQuotes comment @ [SQ]
                 else sql
             | None \<Rightarrow> sql)
      in sql @ '';'')"

text \<open>The callback of \<open>columns.map\<close> in \<open>generateCreateTableSQL\<close>: one column's line.\<close>

definition columnDefinition :: "SQLDialect \<Rightarrow> Column \<Rightarrow> string" where
  "columnDefinition dialect column =
     (let defn = ''  '' @ quoteIdentifier dialect (c_name column) @ '' '' @ formatDataType column;
          defn = (if c_isNotNull column then defn @ '' NOT NULL'' else defn);
          defn = (if c_isAutoIncrement column then defn @ getAutoIncrementSyntax dialect else defn);
          defn =
            (case c_defaultValue column of
               Some dv \<Rightarrow>
                 if dv \<noteq> [] \<and> trim dv \<noteq> [] then defn @ '' DEFAULT '' @ formatDefaultValue dv
                 else defn
             | None \<Rightarrow> defn);
          defn =
            (case c_comment column of
               Some comment \<Rightarrow>
                 if comment \<noteq> [] \<and> dialect = MySQL
                 then defn @ '' COMMENT '' @ [SQ] @ escapeQuotes comment @ [SQ]
                 else defn
             | None \<Rightarrow> defn)
      in defn)"

text \<open>
  The callback of \<open>uniqueColumns.forEach\<close>: \<open>columnDefinitions.push\<close> appends one line to
  the array built so far.
\<close>

definition pushUniqueKey :: "SQLDialect \<Rightarrow> string list \<Rightarrow> Column \<Rightarrow> string list" where
  "pushUniqueKey dialect columnDefinitions col =
     columnDefinitions @
       [''  UNIQUE KEY '' @ quoteIdentifier dialect (''uk_'' @ c_name col) @ '' ('' @
        quoteIdentifier dialect (c_name col) @ '')'']"

text \<open>
  The callback of \<open>foreignKeys.forEach\<close>: the three lookups are \<open>Array.prototype.find\<close>
  (the first element that matches, or \<open>undefined\<close>), and a line is pushed only when all
  three find something.
\<close>

definition pushForeignKey ::
  "SQLDialect \<Rightarrow> TableData \<Rightarrow> TableData list \<Rightarrow> string list \<Rightarrow> RelationshipData \<Rightarrow> string list"
where
  "pushForeignKey dialect table allTables columnDefinitions fk =
     (let sourceCol = find (\<lambda>col. c_id col = r_sourceColumn fk) (t_columns table);
          targetTable = find (\<lambda>t. t_id t = r_targetTable fk) allTables
      in case sourceCol of
           None \<Rightarrow> columnDefinitions
         | Some sourceCol \<Rightarrow>
             (case targetTable of
                None \<Rightarrow> columnDefinitions
              | Some targetTable \<Rightarrow>
                  (case find (\<lambda>c. c_id c = r_targetColumn fk) (t_columns targetTable) of
                     None \<Rightarrow> columnDefinitions
                   | Some targetCol \<Rightarrow>
                       (let constraintName = ''fk_'' @ t_name table @ ''_'' @ c_name sourceCol
                        in columnDefinitions @
                             [''  CONSTRAINT '' @ quoteIdentifier dialect constraintName @
                              '' FOREIGN KEY ('' @ quoteIdentifier dialect (c_name sourceCol) @
                              '') REFERENCES '' @ quoteIdentifier dialect (t_name targetTable) @
                              ''('' @ quoteIdentifier dialect (c_name targetCol) @
                              '') ON UPDATE '' @ referentialAction (r_onUpdate fk) @
                              '' ON DELETE '' @ referentialAction (r_onDelete fk)]))))"

definition generateCreateTableSQL ::
  "SQLDialect \<Rightarrow> TableData \<Rightarrow> RelationshipData list \<Rightarrow> TableData list \<Rightarrow> string"
where
  "generateCreateTableSQL dialect table relationships allTables =
     (let name = t_name table;
          columns = t_columns table;
          sql = ''CREATE TABLE '' @ quoteIdentifier dialect name @ '' ('' @ [NL];
          columnDefinitions = map (columnDefinition dialect) columns;
          primaryKeys = filter c_isPrimaryKey columns;
          columnDefinitions =
            (if length primaryKeys > 0 then
               (let pkNames = join '', '' (map (\<lambda>col. quoteIdentifier dialect (c_name col)) primaryKeys)
                in columnDefinitions @ [''  PRIMARY KEY ('' @ pkNames @ '')''])
             else columnDefinitions);
          uniqueColumns = filter (\<lambda>col. c_isUnique col \<and> \<not> c_isPrimaryKey col) columns;
          columnDefinitions = foldl (pushUniqueKey dialect) columnDefinitions uniqueColumns;
          foreignKeys = filter (\<lambda>rel. r_sourceTable rel = t_id table) relationships;
          columnDefinitions = foldl (pushForeignKey dialect table allTables) columnDefinitions foreignKeys;
          sql = sql @ join ('','' @ [NL]) columnDefinitions;
          sql = sql @ [NL] @ '')'';
          sql =
            (if dialect = MySQL then
               (let sql = (case t_engine table of
                             Some engine \<Rightarrow> if engine \<noteq> [] then sql @ '' ENGINE='' @ engine else sql
                           | None \<Rightarrow> sql);
                    sql = (case t_charset table of
                             Some charset \<Rightarrow>
                               if charset \<noteq> [] then sql @ '' DEFAULT CHARSET='' @ charset else sql
                           | None \<Rightarrow> sql);
                    sql = (case t_collation table of
                             Some collation \<Rightarrow>
                               if collation \<noteq> [] then sql @ '' COLLATE='' @ collation else sql
                           | None \<Rightarrow> sql);
                    sql = (case t_autoIncrement table of
                             Some n \<Rightarrow> if n \<noteq> 0 then sql @ '' AUTO_INCREMENT='' @ showInt n else sql
                           | None \<Rightarrow> sql);
                    sql = (case t_comment table of
                             Some comment \<Rightarrow>
                               if comment \<noteq> []
                               then sql @ '' COMMENT='' @ [SQ] @ escapeQuotes comment @ [SQ]
                               else sql
                           | None \<Rightarrow> sql)
                in sql)
             else sql)
      in sql @ '';'')"

definition generateCreateUserSQL :: "SQLDialect \<Rightarrow> UserData \<Rightarrow> string" where
  "generateCreateUserSQL dialect user =
     (let sql = ''CREATE USER '' @ quoteIdentifier dialect (u_username user) @ ''@'' @
                quoteIdentifier dialect (u_host user);
          sql =
            (case u_password user of
               Some password \<Rightarrow>
                 if password \<noteq> [] then sql @ '' IDENTIFIED BY '' @ [SQ] @ password @ [SQ] else sql
             | None \<Rightarrow> sql)
      in sql @ '';'')"

definition generateGrantPrivilegesSQL ::
  "SQLDialect \<Rightarrow> UserData \<Rightarrow> string option \<Rightarrow> string option \<Rightarrow> string"
where
  "generateGrantPrivilegesSQL dialect user database table =
     (let privileges = join '', '' (u_privileges user);
          target = ''*.*'';
          target =
            (if truthy database \<and> truthy table then
               quoteIdentifier dialect (the database) @ ''.'' @ quoteIdentifier dialect (the table)
             else if truthy database then quoteIdentifier dialect (the database) @ ''.*''
             else target)
      in ''GRANT '' @ privileges @ '' ON '' @ target @ '' TO '' @
         quoteIdentifier dialect (u_username user) @ ''@'' @ quoteIdentifier dialect (u_host user) @
         '';'')"

definition generateFullSQL ::
  "SQLDialect \<Rightarrow> TableData list \<Rightarrow> RelationshipData list \<Rightarrow> string"
where
  "generateFullSQL dialect tables relationships =
     (let sqlStatements = map (\<lambda>table. generateCreateTableSQL dialect table relationships tables) tables
      in join [NL, NL] sqlStatements)"

text \<open>
  The parts of a \<open>CREATE TABLE\<close> statement, named for the statements below: the lines
  the unique-key and foreign-key loops push, and the table options appended after the
  closing parenthesis.
\<close>

definition uniqueKeyLines :: "SQLDialect \<Rightarrow> Column list \<Rightarrow> string list" where
  "uniqueKeyLines dialect columns =
     map (\<lambda>col. ''  UNIQUE KEY '' @ quoteIdentifier dialect (''uk_'' @ c_name col) @ '' ('' @
                 quoteIdentifier dialect (c_name col) @ '')'')
       (filter (\<lambda>col. c_isUnique col \<and> \<not> c_isPrimaryKey col) columns)"

definition foreignKeyLines ::
  "SQLDialect \<Rightarrow> TableData \<Rightarrow> TableData list \<Rightarrow> RelationshipData list \<Rightarrow> string list"
where
  "foreignKeyLines dialect table allTables relationships =
     concat (map (pushForeignKey dialect table allTables [])
       (filter (\<lambda>rel. r_sourceTable rel = t_id table) relationships))"

definition tableOptions :: "SQLDialect \<Rightarrow> TableData \<Rightarrow> string" where
  "tableOptions dialect table =
     (if dialect = MySQL then
        (case t_engine table of
           Some engine \<Rightarrow> if engine \<noteq> [] then '' ENGINE='' @ engine else []
         | None \<Rightarrow> []) @
        (case t_charset table of
           Some charset \<Rightarrow> if charset \<noteq> [] then '' DEFAULT CHARSET='' @ charset else []
         | None \<Rightarrow> []) @
        (case t_collation table of
           Some collation \<Rightarrow> if collation \<noteq> [] then '' COLLATE='' @ collation else []
         | None \<Rightarrow> []) @
        (case t_autoIncrement table of
           Some n \<Rightarrow> if n \<noteq> 0 then '' AUTO_INCREMENT='' @ showInt n else []
         | None \<Rightarrow> []) @
        (case t_comment table of
           Some comment \<Rightarrow>
             if comment \<noteq> [] then '' COMMENT='' @ [SQ] @ escapeQuotes comment @ [SQ] else []
         | None \<Rightarrow> [])
      else [])"

section \<open>The project reducer (\<open>useProject.ts\<close>)\<close>

definition initialProjectState :: ProjectData where
  "initialProjectState =
     \<lparr>p_databases =
        [\<lparr>db_id = ''default_db_id'', db_name = ''default_db'', db_charset = ''utf8mb4'',
          db_collation = ''utf8mb4_general_ci'', db_comment = None\<rparr>],
      p_tables = [], p_relationships = [], p_indexes = [], p_views = [], p_procedures = [],
      p_triggers = [], p_users = [], p_name = ''SQL Architect Project'', p_dialect = MySQL,
      p_currentDatabase = Some ''default_db_id''\<rparr>"

datatype ProjectAction =
    SET_PROJECT ProjectData
  | SET_PROJECT_NAME string
  | SET_DIALECT SQLDialect
  | SET_CURRENT_DATABASE string
  | ADD_DATABASE DatabaseData
  | ADD_TABLE TableData
  | UPDATE_TABLE TableData
  | DELETE_TABLE string
  | UPDATE_TABLE_POSITION string "int \<times> int"
  | ADD_RELATIONSHIP RelationshipData
  | UPDATE_RELATIONSHIP RelationshipData
  | DELETE_RELATIONSHIP string
  | ADD_INDEX IndexData
  | ADD_VIEW ViewData
  | ADD_PROCEDURE StoredProcedureData
  | ADD_TRIGGER TriggerData
  | ADD_USER UserData
  | CLEAR_PROJECT

text \<open>
  \<open>ADD_RELATIONSHIP\<close> and \<open>DELETE_RELATIONSHIP\<close> copy the state shallowly, look the
  target table up with \<open>find\<close> and assign to the \<open>columns\<close> field of the object found.
  That object is an element of \<open>newState.tables\<close>, so the assignment replaces the column
  list of the first table with the id searched for: \<open>assignColumns\<close>. (The array and
  the table objects are shared with the previous state, which sees the assignment too;
  the reducer's result is the new state, and that is what the model returns.)
\<close>

fun assignColumns ::
  "(TableData \<Rightarrow> bool) \<Rightarrow> (Column list \<Rightarrow> Column list) \<Rightarrow> TableData list \<Rightarrow> TableData list"
where
  "assignColumns P f [] = []"
| "assignColumns P f (t # ts) =
     (if P t then t\<lparr>t_columns := f (t_columns t)\<rparr> # ts else t # assignColumns P f ts)"

fun projectReducer :: "ProjectData \<Rightarrow> ProjectAction \<Rightarrow> ProjectData" where
  "projectReducer state (SET_PROJECT payload) = payload"
| "projectReducer state (SET_PROJECT_NAME payload) = state\<lparr>p_name := payload\<rparr>"
| "projectReducer state (SET_DIALECT payload) = state\<lparr>p_dialect := payload\<rparr>"
| "projectReducer state (SET_CURRENT_DATABASE payload) = state\<lparr>p_currentDatabase := Some payload\<rparr>"
| "projectReducer state (ADD_DATABASE payload) =
     state\<lparr>p_databases := p_databases state @ [payload]\<rparr>"
| "projectReducer state (ADD_TABLE payload) = state\<lparr>p_tables := p_tables state @ [payload]\<rparr>"
| "projectReducer state (UPDATE_TABLE payload) =
     state\<lparr>p_tables := map (\<lambda>t. if t_id t = t_id payload then payload else t) (p_tables state)\<rparr>"
| "projectReducer state (DELETE_TABLE payload) =
     state\<lparr>p_tables := filter (\<lambda>t. t_id t \<noteq> payload) (p_tables state),
           p_relationships :=
             filter (\<lambda>r. r_sourceTable r \<noteq> payload \<and> r_targetTable r \<noteq> payload)
               (p_relationships state),
           p_indexes := filter (\<lambda>i. i_tableId i \<noteq> payload) (p_indexes state),
           p_triggers := filter (\<lambda>t. tr_tableId t \<noteq> payload) (p_triggers state)\<rparr>"
| "projectReducer state (UPDATE_TABLE_POSITION ident position) =
     state\<lparr>p_tables :=
             map (\<lambda>t. if t_id t = ident then t\<lparr>t_position := position\<rparr> else t) (p_tables state)\<rparr>"
| "projectReducer state (ADD_RELATIONSHIP payload) =
     (let newState = state\<lparr>p_relationships := p_relationships state @ [payload]\<rparr>;
          targetTable = find (\<lambda>t. t_id t = r_targetTable payload) (p_tables newState)
      in case targetTable of
           Some _ \<Rightarrow>
             newState\<lparr>p_tables :=
               assignColumns (\<lambda>t. t_id t = r_targetTable payload)
                 (map (\<lambda>c. if c_id c = r_targetColumn payload
                            then c\<lparr>c_isForeignKey := Some True,
                                   c_referencesTable := Some (r_sourceTable payload),
                                   c_referencesColumn := Some (r_sourceColumn payload)\<rparr>
                            else c))
                 (p_tables newState)\<rparr>
         | None \<Rightarrow> newState)"
| "projectReducer state (UPDATE_RELATIONSHIP payload) =
     state\<lparr>p_relationships :=
             map (\<lambda>r. if r_id r = r_id payload then payload else r) (p_relationships state)\<rparr>"
| "projectReducer state (DELETE_RELATIONSHIP payload) =
     (let relToDelete = find (\<lambda>r. r_id r = payload) (p_relationships state);
          newState = state\<lparr>p_relationships := filter (\<lambda>r. r_id r \<noteq> payload) (p_relationships state)\<rparr>
      in case relToDelete of
           Some relToDelete \<Rightarrow>
             (case find (\<lambda>t. t_id t = r_targetTable relToDelete) (p_tables newState) of
                Some _ \<Rightarrow>
                  newState\<lparr>p_tables :=
                    assignColumns (\<lambda>t. t_id t = r_targetTable relToDelete)
                      (map (\<lambda>c. if c_id c = r_targetColumn relToDelete
                                 then c\<lparr>c_isForeignKey := Some False,
                                        c_referencesTable := None,
                                        c_referencesColumn := None\<rparr>
                                 else c))
                      (p_tables newState)\<rparr>
              | None \<Rightarrow> newState)
         | None \<Rightarrow> newState)"
| "projectReducer state (ADD_INDEX payload) = state\<lparr>p_indexes := p_indexes state @ [payload]\<rparr>"
| "projectReducer state (ADD_VIEW payload) = state\<lparr>p_views := p_views state @ [payload]\<rparr>"
| "projectReducer state (ADD_PROCEDURE payload) =
     state\<lparr>p_procedures := p_procedures state @ [payload]\<rparr>"
| "projectReducer state (ADD_TRIGGER payload) = state\<lparr>p_triggers := p_triggers state @ [payload]\<rparr>"
| "projectReducer state (ADD_USER payload) = state\<lparr>p_users := p_users state @ [payload]\<rparr>"
| "projectReducer state CLEAR_PROJECT = initialProjectState"

section \<open>What the claims call a number and a case-insensitive match\<close>














section \<open>Example inputs\<close>

text \<open>
  The table of the specification's first scenario (\<open>users\<close> with an auto-increment
  primary key \<open>id\<close>), a table without a primary key, a relationship from \<open>users\<close> to a
  table that does not exist, a table without columns, a database, a user whose password
  holds a single quote, the two tables and the relationship of the third scenario, and a
  table with a two-column primary key.
\<close>

definition exampleColumn :: "string \<Rightarrow> string \<Rightarrow> string \<Rightarrow> Column" where
  "exampleColumn ident name dataType =
     \<lparr>c_id = ident, c_name = name, c_dataType = dataType, c_length = None,
      c_isPrimaryKey = False, c_isNotNull = False, c_isAutoIncrement = False,
      c_isUnique = False, c_defaultValue = None, c_isForeignKey = None,
      c_referencesTable = None, c_referencesColumn = None, c_comment = None,
      c_collation = None, c_charset = None\<rparr>"

definition exampleTable :: "string \<Rightarrow> string \<Rightarrow> Column list \<Rightarrow> TableData" where
  "exampleTable ident name columns =
     \<lparr>t_id = ident, t_name = name, t_columns = columns, t_position = (0, 0),
      t_engine = None, t_charset = None, t_collation = None, t_comment = None,
      t_autoIncrement = None\<rparr>"

definition usersTable :: TableData where
  "usersTable =
     exampleTable ''t1'' ''users''
       [(exampleColumn ''c1'' ''id'' ''INT'')
          \<lparr>c_isPrimaryKey := True, c_isNotNull := True, c_isAutoIncrement := True\<rparr>]"

definition notesTable :: TableData where
  "notesTable =
     exampleTable ''t2'' ''notes'' [(exampleColumn ''c2'' ''body'' ''VARCHAR'')\<lparr>c_length := Some ''50''\<rparr>]"

definition emptyTable :: TableData where
  "emptyTable = (exampleTable ''t3'' ''empty'' [])\<lparr>t_engine := Some ''InnoDB''\<rparr>"

definition danglingRelationship :: RelationshipData where
  "danglingRelationship =
     \<lparr>r_id = ''r0'', r_sourceTable = ''t1'', r_targetTable = ''t9'', r_sourceColumn = ''c1'',
      r_targetColumn = ''c9'', r_type = one_to_many, r_onUpdate = CASCADE,
      r_onDelete = RESTRICT\<rparr>"

definition shopDatabase :: DatabaseData where
  "shopDatabase =
     \<lparr>db_id = ''d1'', db_name = ''shop'', db_charset = ''utf8mb4'',
      db_collation = ''utf8mb4_general_ci'', db_comment = None\<rparr>"

definition appUser :: UserData where
  "appUser =
     \<lparr>u_id = ''u1'', u_username = ''app'', u_host = ''localhost'',
      u_password = Some (''pa'' @ [SQ] @ ''ss''), u_privileges = [''SELECT'', ''INSERT''],
      u_comment = None\<rparr>"

definition tableA :: TableData where
  "tableA = exampleTable ''A'' ''a'' [exampleColumn ''a1'' ''a_id'' ''INT'']"

definition tableB :: TableData where
  "tableB =
     exampleTable ''B'' ''b'' [exampleColumn ''b0'' ''id'' ''INT'', exampleColumn ''b1'' ''b_id'' ''INT'']"

definition relationshipAB :: RelationshipData where
  "relationshipAB =
     \<lparr>r_id = ''r1'', r_sourceTable = ''A'', r_targetTable = ''B'', r_sourceColumn = ''a1'',
      r_targetColumn = ''b1'', r_type = one_to_many, r_onUpdate = CASCADE,
      r_onDelete = CASCADE\<rparr>"

definition projectAB :: ProjectData where
  "projectAB = initialProjectState\<lparr>p_tables := [tableA, tableB]\<rparr>"

definition membershipsTable :: TableData where
  "membershipsTable =
     exampleTable ''t4'' ''memberships''
       [(exampleColumn ''m1'' ''org_id'' ''INT'')\<lparr>c_isPrimaryKey := True\<rparr>,
        exampleColumn ''m2'' ''note'' ''TEXT'',
        (exampleColumn ''m3'' ''user_id'' ''INT'')\<lparr>c_isPrimaryKey := True\<rparr>]"

section \<open>Properties of the helpers\<close>

lemma escapeQuotes_concat:
  "escapeQuotes s = concat (map (\<lambda>c. if c = SQ then [SQ, SQ] else [c]) s)"
  by (induction s) simp_all



lemma foldl_pushUniqueKey:
  "foldl (pushUniqueKey d) acc cols =
   acc @ map (\<lambda>col. ''  UNIQUE KEY '' @ quoteIdentifier d (''uk_'' @ c_name col) @ '' ('' @
                     quoteIdentifier d (c_name col) @ '')'') cols"
  by (induction cols arbitrary: acc) (simp_all add: pushUniqueKey_def)

lemma pushForeignKey_acc: "pushForeignKey d t all acc fk = acc @ pushForeignKey d t all [] fk"
  by (simp add: pushForeignKey_def Let_def split: option.splits)

lemma foldl_pushForeignKey:
  "foldl (pushForeignKey d t all) acc fks = acc @ concat (map (pushForeignKey d t all []) fks)"
proof (induction fks arbitrary: acc)
  case Nil
  then show ?case by simp
next
  case (Cons fk fks)
  have "foldl (pushForeignKey d t all) acc (fk # fks) =
        foldl (pushForeignKey d t all) (pushForeignKey d t all acc fk) fks"
    by simp
  also have "\<dots> = pushForeignKey d t all acc fk @ concat (map (pushForeignKey d t all []) fks)"
    by (rule Cons.IH)
  also have "\<dots> = (acc @ pushForeignKey d t all [] fk) @ concat (map (pushForeignKey d t all []) fks)"
    by (simp only: pushForeignKey_acc [of d t all acc fk])
  finally show ?case by simp
qed

lemma case_option_append:
  "(case x of Some e \<Rightarrow> if P e then s @ f e else s | None \<Rightarrow> s) =
   s @ (case x of Some e \<Rightarrow> if P e then f e else [] | None \<Rightarrow> [])"
  by (simp split: option.splits)

text \<open>
  The statement \<open>generateCreateTableSQL\<close> returns, part by part: the header, the lines
  joined with a comma and a line break (the column definitions, the primary-key line when
  a column is flagged, the unique-key lines, the foreign-key lines), the closing
  parenthesis on a line of its own, the table options and the semicolon.
\<close>

lemma generateCreateTableSQL_layout:
  "generateCreateTableSQL d table rels all =
     ''CREATE TABLE '' @ quoteIdentifier d (t_name table) @ '' ('' @ [NL] @
     join ('','' @ [NL])
       (map (columnDefinition d) (t_columns table) @
        (if filter c_isPrimaryKey (t_columns table) = [] then []
         else [''  PRIMARY KEY ('' @
               join '', '' (map (\<lambda>col. quoteIdentifier d (c_name col))
                 (filter c_isPrimaryKey (t_columns table))) @ '')'']) @
        uniqueKeyLines d (t_columns table) @
        foreignKeyLines d table all rels) @
     [NL] @ '')'' @ tableOptions d table @ '';''"
  unfolding generateCreateTableSQL_def tableOptions_def uniqueKeyLines_def foreignKeyLines_def
  by (simp only: Let_def case_option_append foldl_pushUniqueKey foldl_pushForeignKey) simp

lemma pushForeignKey_dangling:
  assumes "find (\<lambda>col. c_id col = r_sourceColumn fk) (t_columns table) = None \<or>
     find (\<lambda>t. t_id t = r_targetTable fk) allTables = None \<or>
     (\<exists>targetTable. find (\<lambda>t. t_id t = r_targetTable fk) allTables = Some targetTable \<and>
        find (\<lambda>c. c_id c = r_targetColumn fk) (t_columns targetTable) = None)"
  shows "pushForeignKey d table allTables defs fk = defs"
  using assms by (auto simp: pushForeignKey_def Let_def split: option.splits)

lemma find_assignColumns:
  "find (\<lambda>t. t_id t = x) (assignColumns (\<lambda>t. t_id t = x) f ts) =
   map_option (\<lambda>t. t\<lparr>t_columns := f (t_columns t)\<rparr>) (find (\<lambda>t. t_id t = x) ts)"
  by (induction ts) simp_all

lemma find_None_filter: "find P xs = None \<Longrightarrow> filter (\<lambda>x. \<not> P x) xs = xs"
  by (induction xs) (simp_all split: if_splits)

lemma find_fresh:
  "r_id rel \<notin> r_id ` set rels \<Longrightarrow> find (\<lambda>r. r_id r = r_id rel) (rels @ [rel]) = Some rel"
  by (induction rels) auto

lemma filter_fresh:
  "r_id rel \<notin> r_id ` set rels \<Longrightarrow> filter (\<lambda>r. r_id r \<noteq> r_id rel) rels = rels"
  by (induction rels) auto

lemmas example_defs =
  exampleColumn_def exampleTable_def usersTable_def notesTable_def emptyTable_def
  danglingRelationship_def shopDatabase_def appUser_def tableA_def tableB_def
  relationshipAB_def projectAB_def membershipsTable_def initialProjectState_def

lemmas string_defs =
  toUpperCase_def upperChar_def lowerLetters_def upperLetters_def trim_def isWhiteSpace_def


lemmas createTable_defs =
  generateCreateTableSQL_layout columnDefinition_def formatDataType_def uniqueKeyLines_def
  foreignKeyLines_def tableOptions_def pushForeignKey_def Let_def

section \<open>The number test and the token test, against their direct statements\<close>








































section \<open>Foreign keys whose references do not resolve\<close>

text \<open>
  Claim C1. Let a relationship have the table's id as its source table, and let one of
  its three lookups fail: no column of the table has its source column id, or no table of
  \<open>allTables\<close> has its target table id, or the target table found has no column with its
  target column id. Then \<open>generateCreateTableSQL\<close> returns exactly the statement it
  returns for the relationship list without that relationship: the FOREIGN KEY
  constraint is left out and everything else is unchanged. The function is total, so
  nothing is thrown.
\<close>

theorem createTable_skips_dangling_foreign_key:
  assumes "r_sourceTable fk = t_id table"
    and "find (\<lambda>col. c_id col = r_sourceColumn fk) (t_columns table) = None \<or>
     find (\<lambda>t. t_id t = r_targetTable fk) allTables = None \<or>
     (\<exists>targetTable. find (\<lambda>t. t_id t = r_targetTable fk) allTables = Some targetTable \<and>
        find (\<lambda>c. c_id c = r_targetColumn fk) (t_columns targetTable) = None)"
  shows "generateCreateTableSQL d table (before @ fk # after) allTables =
         generateCreateTableSQL d table (before @ after) allTables"
proof -
  have "pushForeignKey d table allTables [] fk = []"
    using assms(2) by (rule pushForeignKey_dangling)
  then have "foreignKeyLines d table allTables (before @ fk # after) =
             foreignKeyLines d table allTables (before @ after)"
    by (simp add: foreignKeyLines_def)
  then show ?thesis by (simp only: generateCreateTableSQL_layout)
qed

theorem createTable_skips_dangling_foreign_key_witness:
  "generateCreateTableSQL MySQL usersTable [danglingRelationship] [usersTable, notesTable] =
   generateCreateTableSQL MySQL usersTable [] [usersTable, notesTable] \<and>
   generateCreateTableSQL MySQL usersTable [danglingRelationship] [usersTable, notesTable] =
   ''CREATE TABLE `users` ('' @ [NL] @ ''  `id` INT NOT NULL AUTO_INCREMENT,'' @ [NL] @
   ''  PRIMARY KEY (`id`)'' @ [NL] @ '');''"
  using createTable_skips_dangling_foreign_key
    [of danglingRelationship usersTable "[usersTable, notesTable]" MySQL "[]" "[]"]
  by (simp add: example_defs createTable_defs)

section \<open>Identifier quoting across dialects\<close>




section \<open>\<open>CREATE DATABASE\<close>\<close>

text \<open>
  Claim C3, as amended. \<open>generateCreateDatabaseSQL\<close> returns \<open>CREATE DATABASE\<close> and the
  quoted name; then the CHARACTER SET and COLLATE clauses exactly when the dialect is
  MySQL (MariaDB does not get them); then a COMMENT clause exactly when the comment is
  present and not the empty string, its single quotes doubled; then the semicolon.
\<close>

theorem createDatabase_statement:
  "generateCreateDatabaseSQL d database =
     ''CREATE DATABASE '' @ quoteIdentifier d (db_name database) @
     (if d = MySQL
      then '' CHARACTER SET '' @ db_charset database @ '' COLLATE '' @ db_collation database
      else []) @
     (case db_comment database of
        Some comment \<Rightarrow>
          if comment \<noteq> []
          then '' COMMENT '' @ [SQ] @
               concat (map (\<lambda>c. if c = SQ then [SQ, SQ] else [c]) comment) @ [SQ]
          else []
      | None \<Rightarrow> []) @
     '';''"
  by (simp add: generateCreateDatabaseSQL_def Let_def escapeQuotes_concat split: option.splits)

theorem createDatabase_statement_witness:
  "generateCreateDatabaseSQL MySQL (shopDatabase\<lparr>db_comment := Some (''Bob'' @ [SQ] @ ''s'')\<rparr>) =
     ''CREATE DATABASE `shop` CHARACTER SET utf8mb4 COLLATE utf8mb4_general_ci COMMENT '' @
     [SQ] @ ''Bob'' @ [SQ, SQ] @ ''s'' @ [SQ] @ '';'' \<and>
   generateCreateDatabaseSQL PostgreSQL shopDatabase = ''CREATE DATABASE '' @ [DQ] @ ''shop'' @ [DQ] @ '';''"
  using createDatabase_statement [of MySQL "shopDatabase\<lparr>db_comment := Some (''Bob'' @ [SQ] @ ''s'')\<rparr>"]
    createDatabase_statement [of PostgreSQL shopDatabase]
  by (simp add: example_defs)

text \<open>
  The claim as it stands fails under MariaDB, where no CHARACTER SET or COLLATE clause
  is appended, and for a comment that is the empty string, where no COMMENT clause is
  appended.
\<close>

theorem createDatabase_mariadb_counterexample:
  "generateCreateDatabaseSQL MariaDB shopDatabase = ''CREATE DATABASE `shop`;'' \<and>
   generateCreateDatabaseSQL MariaDB shopDatabase \<noteq>
     ''CREATE DATABASE `shop` CHARACTER SET utf8mb4 COLLATE utf8mb4_general_ci;'' \<and>
   generateCreateDatabaseSQL MySQL (shopDatabase\<lparr>db_comment := Some []\<rparr>) =
     ''CREATE DATABASE `shop` CHARACTER SET utf8mb4 COLLATE utf8mb4_general_ci;'' \<and>
   generateCreateDatabaseSQL MySQL (shopDatabase\<lparr>db_comment := Some []\<rparr>) \<noteq>
     ''CREATE DATABASE `shop` CHARACTER SET utf8mb4 COLLATE utf8mb4_general_ci COMMENT '' @
     [SQ, SQ] @ '';''"
  by (simp add: generateCreateDatabaseSQL_def Let_def example_defs)

section \<open>Values the generator quotes\<close>

text \<open>
  Claim C4. The claim asks that every value the generator wraps in single quotes has its
  single quotes doubled. \<open>generateCreateUserSQL\<close> wraps the password and
  \<open>formatDataType\<close> wraps the members of an ENUM or SET list without doubling them: the
  password \<open>pa'ss\<close> and the member \<open>it's\<close> come out as they are.
\<close>

theorem createUser_password_unescaped:
  "generateCreateUserSQL MySQL appUser =
     ''CREATE USER `app`@`localhost` IDENTIFIED BY '' @ [SQ] @ ''pa'' @ [SQ] @ ''ss'' @ [SQ] @ '';'' \<and>
   formatDataType ((exampleColumn ''c3'' ''size'' ''ENUM'')\<lparr>c_length := Some (''S,it'' @ [SQ] @ ''s'')\<rparr>) =
     ''ENUM('' @ [SQ] @ ''S'' @ [SQ] @ '', '' @ [SQ] @ ''it'' @ [SQ] @ ''s'' @ [SQ] @ '')''"
  by (simp add: generateCreateUserSQL_def formatDataType_def Let_def example_defs string_defs)

text \<open>
  The values of data-manipulation statements, like the comments and the default values,
  do have their single quotes doubled.
\<close>

lemma formatValue_string_escaped:
  "formatValue (JsString s) = [SQ] @ concat (map (\<lambda>c. if c = SQ then [SQ, SQ] else [c]) s) @ [SQ]"
  by (simp add: escapeQuotes_concat)

section \<open>Default values\<close>



section \<open>The primary-key constraint\<close>

text \<open>
  Claim C6, as amended. \<open>generateCreateTableSQL\<close> puts, after the column definitions and
  before the unique-key and foreign-key lines, one PRIMARY KEY line when at least one
  column is flagged primary key, and no line at all when none is. The line lists the
  quoted names of exactly the flagged columns, in the order of the table's columns,
  separated by a comma and a space.
\<close>

theorem createTable_primary_key:
  "generateCreateTableSQL d table rels all =
     ''CREATE TABLE '' @ quoteIdentifier d (t_name table) @ '' ('' @ [NL] @
     join ('','' @ [NL])
       (map (columnDefinition d) (t_columns table) @
        (if list_ex c_isPrimaryKey (t_columns table)
         then [''  PRIMARY KEY ('' @
               join '', '' (map (\<lambda>col. quoteIdentifier d (c_name col))
                 (filter c_isPrimaryKey (t_columns table))) @ '')'']
         else []) @
        uniqueKeyLines d (t_columns table) @
        foreignKeyLines d table all rels) @
     [NL] @ '')'' @ tableOptions d table @ '';''"
  by (simp add: generateCreateTableSQL_layout filter_empty_conv list_ex_iff)

theorem createTable_primary_key_witness:
  "generateCreateTableSQL PostgreSQL membershipsTable [] [membershipsTable] =
     ''CREATE TABLE '' @ [DQ] @ ''memberships'' @ [DQ] @ '' ('' @ [NL] @
     ''  '' @ [DQ] @ ''org_id'' @ [DQ] @ '' INT,'' @ [NL] @
     ''  '' @ [DQ] @ ''note'' @ [DQ] @ '' TEXT,'' @ [NL] @
     ''  '' @ [DQ] @ ''user_id'' @ [DQ] @ '' INT,'' @ [NL] @
     ''  PRIMARY KEY ('' @ [DQ] @ ''org_id'' @ [DQ] @ '', '' @ [DQ] @ ''user_id'' @ [DQ] @ '')'' @
     [NL] @ '');''"
  using createTable_primary_key [of PostgreSQL membershipsTable "[]" "[membershipsTable]"]
  by (simp add: example_defs createTable_defs)

text \<open>
  The claim as it stands promises a PRIMARY KEY constraint, empty, for a table without a
  flagged column. No such line is produced: the statement for \<open>notes\<close> has the column
  definition only.
\<close>

theorem createTable_no_primary_key_counterexample:
  "generateCreateTableSQL MySQL notesTable [] [notesTable] =
     ''CREATE TABLE `notes` ('' @ [NL] @ ''  `body` VARCHAR(50)'' @ [NL] @ '');'' \<and>
   generateCreateTableSQL MySQL notesTable [] [notesTable] \<noteq>
     ''CREATE TABLE `notes` ('' @ [NL] @ ''  `body` VARCHAR(50),'' @ [NL] @
     ''  PRIMARY KEY ()'' @ [NL] @ '');''"
  by (simp add: example_defs createTable_defs)

section \<open>Marking and unmarking foreign-key columns\<close>

text \<open>
  Claim C7, as amended. Let the relationship added have an id that no relationship of
  the state has. Adding it appends it to the relationships. In the target table (the
  table \<open>find\<close> returns for the relationship's target table id) every column whose id is
  the relationship's target column id gets the foreign-key flag and the relationship's
  source table and source column as its references; the other columns and fields stay
  as they were. Deleting the relationship by its id then gives back the relationships of
  the start, and the same columns of the target table have the flag false and no
  references.
\<close>

theorem add_then_delete_relationship:
  assumes fresh: "r_id rel \<notin> set (map r_id (p_relationships state))"
  shows
    "(let added = projectReducer state (ADD_RELATIONSHIP rel);
          deleted = projectReducer added (DELETE_RELATIONSHIP (r_id rel));
          isTarget = (\<lambda>t. t_id t = r_targetTable rel)
      in p_relationships added = p_relationships state @ [rel] \<and>
         find isTarget (p_tables added) =
           map_option
             (\<lambda>t. t\<lparr>t_columns :=
                map (\<lambda>c. if c_id c = r_targetColumn rel
                          then c\<lparr>c_isForeignKey := Some True,
                                 c_referencesTable := Some (r_sourceTable rel),
                                 c_referencesColumn := Some (r_sourceColumn rel)\<rparr>
                          else c) (t_columns t)\<rparr>)
             (find isTarget (p_tables state)) \<and>
         p_relationships deleted = p_relationships state \<and>
         find isTarget (p_tables deleted) =
           map_option
             (\<lambda>t. t\<lparr>t_columns :=
                map (\<lambda>c. if c_id c = r_targetColumn rel
                          then c\<lparr>c_isForeignKey := Some False,
                                 c_referencesTable := None,
                                 c_referencesColumn := None\<rparr>
                          else c) (t_columns t)\<rparr>)
             (find isTarget (p_tables state)))"
proof (cases "find (\<lambda>t. t_id t = r_targetTable rel) (p_tables state)")
  case None
  then show ?thesis
    using fresh by (simp add: Let_def find_fresh filter_fresh)
next
  case (Some t)
  have cols:
    "map (\<lambda>c. if c_id c = r_targetColumn rel
               then c\<lparr>c_isForeignKey := Some False, c_referencesTable := None,
                      c_referencesColumn := None\<rparr>
               else c)
       (map (\<lambda>c. if c_id c = r_targetColumn rel
                  then c\<lparr>c_isForeignKey := Some True,
                         c_referencesTable := Some (r_sourceTable rel),
                         c_referencesColumn := Some (r_sourceColumn rel)\<rparr>
                  else c) cs) =
     map (\<lambda>c. if c_id c = r_targetColumn rel
               then c\<lparr>c_isForeignKey := Some False, c_referencesTable := None,
                      c_referencesColumn := None\<rparr>
               else c) cs" for cs
    by (induction cs) simp_all
  from Some show ?thesis
    using fresh by (simp add: Let_def find_fresh filter_fresh find_assignColumns cols)
qed

theorem add_then_delete_relationship_witness:
  "(let added = projectReducer projectAB (ADD_RELATIONSHIP relationshipAB);
        deleted = projectReducer added (DELETE_RELATIONSHIP ''r1'')
    in p_relationships added = [relationshipAB] \<and>
       p_tables added =
         [tableA,
          exampleTable ''B'' ''b''
            [exampleColumn ''b0'' ''id'' ''INT'',
             (exampleColumn ''b1'' ''b_id'' ''INT'')
               \<lparr>c_isForeignKey := Some True, c_referencesTable := Some ''A'',
                c_referencesColumn := Some ''a1''\<rparr>]] \<and>
       p_relationships deleted = [] \<and>
       p_tables deleted =
         [tableA,
          exampleTable ''B'' ''b''
            [exampleColumn ''b0'' ''id'' ''INT'',
             (exampleColumn ''b1'' ''b_id'' ''INT'')
               \<lparr>c_isForeignKey := Some False, c_referencesTable := None,
                c_referencesColumn := None\<rparr>]])"
  using add_then_delete_relationship [of relationshipAB projectAB]
  by (simp add: example_defs Let_def)

text \<open>
  The claim as it stands, for every state, fails when a relationship of the state
  already has the id: \<open>DELETE_RELATIONSHIP\<close> removes every relationship with the id and
  clears the target column of the first one it finds. Here an earlier relationship with
  target column \<open>b0\<close> has the id \<open>r1\<close>; after adding the relationship \<open>r1\<close> with target
  column \<open>b1\<close> and deleting \<open>r1\<close>, no relationship is left, \<open>b0\<close> is cleared and \<open>b1\<close> is
  still marked as a foreign key.
\<close>

theorem delete_relationship_shared_id_counterexample:
  "projectReducer
     (projectReducer (projectAB\<lparr>p_relationships := [relationshipAB\<lparr>r_targetColumn := ''b0''\<rparr>]\<rparr>)
        (ADD_RELATIONSHIP relationshipAB))
     (DELETE_RELATIONSHIP (r_id relationshipAB)) =
   projectAB
     \<lparr>p_tables :=
        [tableA,
         exampleTable ''B'' ''b''
           [(exampleColumn ''b0'' ''id'' ''INT'')
              \<lparr>c_isForeignKey := Some False, c_referencesTable := None,
               c_referencesColumn := None\<rparr>,
            (exampleColumn ''b1'' ''b_id'' ''INT'')
              \<lparr>c_isForeignKey := Some True, c_referencesTable := Some ''A'',
               c_referencesColumn := Some ''a1''\<rparr>]]\<rparr>"
  by (simp add: example_defs Let_def)

section \<open>A table without columns\<close>

text \<open>
  Claim C8. For every dialect, a table whose column list is empty gives, whatever the
  relationships and tables supplied, the statement \<open>CREATE TABLE\<close>, the quoted name, an
  opening parenthesis, two line breaks with nothing between them, the closing
  parenthesis, the table options and the semicolon: no definition or constraint stands
  between the parentheses, and the last character is the semicolon.
\<close>

theorem createTable_no_columns:
  assumes "t_columns table = []"
  shows "generateCreateTableSQL d table rels all =
           ''CREATE TABLE '' @ quoteIdentifier d (t_name table) @ '' ('' @ [NL] @ [NL] @ '')'' @
           tableOptions d table @ '';'' \<and>
         last (generateCreateTableSQL d table rels all) = CHR '';''"
proof -
  have "pushForeignKey d table all [] fk = []" for fk
    using assms by (simp add: pushForeignKey_def)
  then have "foreignKeyLines d table all rels = []"
    by (simp add: foreignKeyLines_def)
  then show ?thesis
    using assms by (simp add: generateCreateTableSQL_layout uniqueKeyLines_def)
qed

theorem createTable_no_columns_witness:
  "generateCreateTableSQL MySQL emptyTable [danglingRelationship] [emptyTable] =
     ''CREATE TABLE `empty` ('' @ [NL] @ [NL] @ '') ENGINE=InnoDB;'' \<and>
   generateCreateTableSQL Oracle emptyTable [] [] =
     ''CREATE TABLE '' @ [DQ] @ ''EMPTY'' @ [DQ] @ '' ('' @ [NL] @ [NL] @ '');''"
  using createTable_no_columns [of emptyTable MySQL "[danglingRelationship]" "[emptyTable]"]
    createTable_no_columns [of emptyTable Oracle "[]" "[]"]
  by (simp add: example_defs tableOptions_def string_defs)

section \<open>The target of a grant\<close>

text \<open>
  Claim C9. With no database name (absent, or the empty string) and a table name,
  \<open>generateGrantPrivilegesSQL\<close> returns what it returns with neither: the grant is on
  \<open>*.*\<close>.
\<close>

theorem grant_table_without_database:
  "generateGrantPrivilegesSQL d user None (Some table) =
     generateGrantPrivilegesSQL d user None None \<and>
   generateGrantPrivilegesSQL d user (Some []) (Some table) =
     generateGrantPrivilegesSQL d user None None \<and>
   generateGrantPrivilegesSQL d user None (Some table) =
     ''GRANT '' @ join '', '' (u_privileges user) @ '' ON *.* TO '' @
     quoteIdentifier d (u_username user) @ ''@'' @ quoteIdentifier d (u_host user) @ '';''"
  by (simp add: generateGrantPrivilegesSQL_def Let_def)

theorem grant_table_without_database_witness:
  "generateGrantPrivilegesSQL MySQL appUser None (Some ''orders'') =
     ''GRANT SELECT, INSERT ON *.* TO `app`@`localhost`;'' \<and>
   generateGrantPrivilegesSQL MySQL appUser (Some ''shop'') (Some ''orders'') =
     ''GRANT SELECT, INSERT ON `shop`.`orders` TO `app`@`localhost`;''"
  using grant_table_without_database [of MySQL appUser "''orders''"]
  by (simp add: generateGrantPrivilegesSQL_def Let_def example_defs)

section \<open>Deleting a relationship that does not exist\<close>

text \<open>
  Claim C10. When no relationship of the state has the identifier given,
  \<open>DELETE_RELATIONSHIP\<close> returns the state it was given: the relationships, the tables
  and every other field are equal to the input's.
\<close>

theorem delete_unknown_relationship:
  assumes "\<forall>r \<in> set (p_relationships state). r_id r \<noteq> ident"
  shows "projectReducer state (DELETE_RELATIONSHIP ident) = state"
proof -
  have none: "find (\<lambda>r. r_id r = ident) (p_relationships state) = None"
    using assms by (simp add: find_None_iff)
  then have "filter (\<lambda>r. r_id r \<noteq> ident) (p_relationships state) = p_relationships state"
    by (rule find_None_filter)
  with none show ?thesis by simp
qed

theorem delete_unknown_relationship_witness:
  "projectReducer (projectReducer projectAB (ADD_RELATIONSHIP relationshipAB))
     (DELETE_RELATIONSHIP ''r7'') =
   projectReducer projectAB (ADD_RELATIONSHIP relationshipAB)"
  using delete_unknown_relationship
    [of "projectReducer projectAB (ADD_RELATIONSHIP relationshipAB)" "''r7''"]
  by (simp add: example_defs Let_def)

end
